theory Spec2Isabelle
  imports Main
begin

section \<open>The updater: running the script and reporting its outcome\<close>

text \<open>
  A model of \<^verbatim>\<open>updater/updater.cpp\<close>: \<^verbatim>\<open>Updater::RunUpdate\<close>,
  \<^verbatim>\<open>Updater::UiPrint\<close> and \<^verbatim>\<open>Updater::ParseAndReportErrorCode\<close>.
  The command pipe is the list of the texts written to it, one entry for each
  \<^verbatim>\<open>fprintf\<close> call, in the order of the calls; the diagnostic log is the list of
  the messages given to \<^verbatim>\<open>LOG\<close>, with their severity.
\<close>

subsection \<open>The C library and libbase\<close>

text \<open>
  \<^verbatim>\<open>std::string::c_str\<close> as a C function reads it: the text before the first NUL
  byte. It is what \<^verbatim>\<open>%s\<close> prints and what \<^verbatim>\<open>sscanf\<close> scans.
\<close>

definition c_str :: "string \<Rightarrow> string" where
  "c_str s = takeWhile (\<lambda>c. c \<noteq> CHR 0x00) s"

text \<open>
  \<^verbatim>\<open>android::base::Split(s, delimiters)\<close>, the loop of libbase: the token up to the
  next delimiter (\<^verbatim>\<open>find_first_of\<close>, \<^verbatim>\<open>substr\<close>) is pushed, and the loop ends
  when no delimiter is left (\<^verbatim>\<open>npos\<close>). The result is never empty. Every call of the
  updater passes the delimiters \<^verbatim>\<open>"\n"\<close>.
\<close>

function Split :: "string \<Rightarrow> string \<Rightarrow> string list" where
  "Split s delimiters =
     (let token = takeWhile (\<lambda>c. c \<notin> set delimiters) s;
          rest = dropWhile (\<lambda>c. c \<notin> set delimiters) s
      in if rest = [] then [token] else token # Split (tl rest) delimiters)"
  by pat_completeness auto
termination
proof (relation "measure (\<lambda>(s, delimiters). length s)")
  show "wf (measure (\<lambda>(s, delimiters). length s))"
    by simp
next
  fix s delimiters :: string and token rest :: string
  assume rest: "rest = dropWhile (\<lambda>c. c \<notin> set delimiters) s" and ne: "rest \<noteq> []"
  have "length (tl rest) < length rest"
    using ne by (cases rest) simp_all
  moreover have "length rest \<le> length s"
    unfolding rest by (rule length_dropWhile_le)
  ultimately show "((tl rest, delimiters), (s, delimiters)) \<in> measure (\<lambda>(s, delimiters). length s)"
    by simp
qed

declare Split.simps [simp del]

text \<open>The characters of the C locale's \<^verbatim>\<open>isspace\<close> and \<^verbatim>\<open>isdigit\<close>.\<close>

definition isspace :: "char \<Rightarrow> bool" where
  "isspace c \<longleftrightarrow>
     c = CHR '' '' \<or> c = CHR 0x09 \<or> c = CHR 0x0A \<or> c = CHR 0x0B \<or> c = CHR 0x0C \<or> c = CHR 0x0D"

definition isdigit :: "char \<Rightarrow> bool" where
  "isdigit c \<longleftrightarrow> 48 \<le> (of_char c :: nat) \<and> (of_char c :: nat) \<le> 57"

definition digit_value :: "char \<Rightarrow> int" where
  "digit_value c = int (of_char c) - 48"

text \<open>The number a string of decimal digits denotes.\<close>

definition decimal :: "string \<Rightarrow> int" where
  "decimal ds = foldl (\<lambda>acc c. 10 * acc + digit_value c) 0 ds"

text \<open>
  A C \<^verbatim>\<open>int\<close> has 32 bits. \<^verbatim>\<open>to_int32\<close> is the value a two's-complement
  truncation to 32 bits leaves; it is the identity from \<open>- 2 ^ 31\<close> to \<open>2 ^ 31 - 1\<close>.
\<close>

definition to_int32 :: "int \<Rightarrow> int" where
  "to_int32 v = (v + 2 ^ 31) mod 2 ^ 32 - 2 ^ 31"

text \<open>
  The result of \<^verbatim>\<open>strtol\<close> on a 64-bit \<^verbatim>\<open>long\<close> (and of \<^verbatim>\<open>strtoimax\<close>): a
  number out of range is replaced by the nearest bound.
\<close>

definition saturate64 :: "int \<Rightarrow> int" where
  "saturate64 v = max (- (2 ^ 63)) (min (2 ^ 63 - 1) v)"

text \<open>
  The conversion \<^verbatim>\<open>%d\<close> of \<^verbatim>\<open>sscanf\<close>: white space is skipped, then an optional
  sign, then the longest run of decimal digits; with no digit the conversion fails. ISO C
  leaves the stored value undefined when the number does not fit the \<^verbatim>\<open>int\<close>; the
  model does what the C libraries do: the digits are converted as \<^verbatim>\<open>strtol\<close> converts
  them, and the \<^verbatim>\<open>int\<close> receives the low 32 bits of that result.
\<close>

definition scan_d :: "string \<Rightarrow> int option" where
  "scan_d s =
     (let s1 = dropWhile isspace s;
          negative = (s1 \<noteq> [] \<and> hd s1 = CHR ''-'');
          s2 = (if s1 \<noteq> [] \<and> (hd s1 = CHR ''-'' \<or> hd s1 = CHR ''+'') then tl s1 else s1);
          ds = takeWhile isdigit s2
      in if ds = [] then None
         else Some (to_int32 (saturate64 (if negative then - decimal ds else decimal ds))))"

text \<open>
  \<^verbatim>\<open>sscanf(line.c_str(), "E%d: ", &error_code) == 1\<close>, with the value stored:
  \<open>Some v\<close> when the call returns 1 and has stored \<open>v\<close>, \<open>None\<close> when it returns
  0 or \<^verbatim>\<open>EOF\<close> and has stored nothing. The call returns 1 as soon as \<^verbatim>\<open>%d\<close> has
  converted: what the format has after \<^verbatim>\<open>%d\<close> (the colon, the space) does not change
  the return value and stores nothing.
\<close>

definition sscanf_E_d :: "string \<Rightarrow> int option" where
  "sscanf_E_d s =
     (case c_str s of
        [] \<Rightarrow> None
      | c # r \<Rightarrow> if c = CHR ''E'' then scan_d r else None)"

text \<open>\<^verbatim>\<open>%d\<close> of \<^verbatim>\<open>fprintf\<close>, and \<^verbatim>\<open>operator<<\<close> of an \<^verbatim>\<open>int\<close>.\<close>

definition digit_char :: "nat \<Rightarrow> char" where
  "digit_char d = ''0123456789'' ! d"

fun show_nat :: "nat \<Rightarrow> string" where
  "show_nat n =
     (if n < 10 then [digit_char n]
      else show_nat (n div 10) @ [digit_char (n mod 10)])"

declare show_nat.simps [simp del]

definition show_int :: "int \<Rightarrow> string" where
  "show_int i = (if i < 0 then CHR ''-'' # show_nat (nat (- i)) else show_nat (nat i))"

subsection \<open>The data\<close>

text \<open>
  Modelled from the spec: the header that declares the enumerations \<^verbatim>\<open>ErrorCode\<close>
  and \<^verbatim>\<open>CauseCode\<close> is not among the sources, so the five constants the updater
  names are parameters of the model.
\<close>

record codes =
  kNoError :: int
  kScriptExecutionFailure :: int
  kNoCause :: int
  kPatchApplicationFailure :: int
  kEioFailure :: int

text \<open>
  Modelled from the spec: the header with the enumerations' values is missing; the spec
  gives 0 to both "none" values and no value to the other three, which stand here for
  sample values, different from "none". The concrete evaluations below use this instance.
\<close>

definition sample_codes :: codes where
  "sample_codes =
     \<lparr>kNoError = 0, kScriptExecutionFailure = 25, kNoCause = 0,
      kPatchApplicationFailure = 115, kEioFailure = 117\<rparr>"

text \<open>
  \<^verbatim>\<open>struct State\<close> of the script engine, with the fields the updater reads and
  writes.
\<close>

record State =
  script :: string
  errmsg :: string
  error_code :: int
  cause_code :: int
  is_retry :: bool

text \<open>
  Modelled from the spec: the constructor \<^verbatim>\<open>State(script, cookie)\<close> belongs to the
  script engine, which is not among the sources. The state is created fresh: no message,
  no error code and no cause code.
\<close>

definition new_State :: "codes \<Rightarrow> string \<Rightarrow> State" where
  "new_State cs s =
     \<lparr>script = s, errmsg = [], error_code = kNoError cs, cause_code = kNoCause cs,
      is_retry = False\<rparr>"

datatype severity = INFO | ERROR

text \<open>
  The updater's members that \<^verbatim>\<open>RunUpdate\<close> uses (\<^verbatim>\<open>updater_script_\<close>,
  \<^verbatim>\<open>result_\<close> and \<^verbatim>\<open>is_retry_\<close>, named here without the final underscore),
  the texts written to \<^verbatim>\<open>cmd_pipe_\<close> and the process's diagnostic log.
\<close>

record Updater =
  cmd_pipe :: "string list"
  diag_log :: "(severity \<times> string) list"
  updater_script :: string
  updater_result :: string
  updater_is_retry :: bool

definition fprintf :: "string \<Rightarrow> Updater \<Rightarrow> Updater" where
  "fprintf text u = u\<lparr>cmd_pipe := cmd_pipe u @ [text]\<rparr>"

definition LOG :: "severity \<Rightarrow> string \<Rightarrow> Updater \<Rightarrow> Updater" where
  "LOG sev text u = u\<lparr>diag_log := diag_log u @ [(sev, text)]\<rparr>"

text \<open>The texts of the formats, arguments filled in.\<close>

definition ui_print_line :: "string \<Rightarrow> string" where
  "ui_print_line line = ''ui_print '' @ c_str line @ ''\<newline>''"

definition log_error_line :: "int \<Rightarrow> string" where
  "log_error_line code = ''log error: '' @ show_int code @ ''\<newline>''"

definition log_cause_line :: "int \<Rightarrow> string" where
  "log_cause_line code = ''log cause: '' @ show_int code @ ''\<newline>''"

definition retry_update_line :: string where
  "retry_update_line = ''retry_update\<newline>''"

definition succeeded_line :: "string \<Rightarrow> string" where
  "succeeded_line result =
     ''ui_print script succeeded: result was ['' @ c_str result @ '']\<newline>''"

definition no_message_line :: string where
  "no_message_line = ''ui_print script aborted (no error message)\<newline>''"

subsection \<open>\<^verbatim>\<open>Updater::UiPrint\<close>\<close>

fun UiPrint_loop :: "string list \<Rightarrow> Updater \<Rightarrow> Updater" where
  "UiPrint_loop [] u = u"
| "UiPrint_loop (line # lines) u =
     UiPrint_loop lines (if line \<noteq> [] then fprintf (ui_print_line line) u else u)"

definition UiPrint :: "string \<Rightarrow> Updater \<Rightarrow> Updater" where
  "UiPrint message u = LOG INFO message (UiPrint_loop (Split message ''\<newline>'') u)"

subsection \<open>\<^verbatim>\<open>Updater::ParseAndReportErrorCode\<close>\<close>

text \<open>The body of the loop over the lines of the abort message.\<close>

definition report_line :: "string \<Rightarrow> State \<Rightarrow> Updater \<Rightarrow> State \<times> Updater" where
  "report_line line st u =
     (let (st1, u1) =
        (if line \<noteq> [] \<and> hd line = CHR ''E'' then
           (case sscanf_E_d line of
              Some v \<Rightarrow> (st\<lparr>error_code := v\<rparr>, u)
            | None \<Rightarrow> (st, LOG ERROR (''Failed to parse error code: ['' @ line @ '']'') u))
         else (st, u))
      in (st1, fprintf (ui_print_line line) u1))"

fun report_lines :: "string list \<Rightarrow> State \<Rightarrow> Updater \<Rightarrow> State \<times> Updater" where
  "report_lines [] st u = (st, u)"
| "report_lines (line # lines) st u =
     (case report_line line st u of (st1, u1) \<Rightarrow> report_lines lines st1 u1)"

text \<open>
  The state is passed by pointer and the function writes its \<^verbatim>\<open>error_code\<close>, so the
  model returns the state with the updater.
\<close>

definition ParseAndReportErrorCode :: "codes \<Rightarrow> State \<Rightarrow> Updater \<Rightarrow> State \<times> Updater" where
  "ParseAndReportErrorCode cs st u =
     (let (st1, u1) =
        (if errmsg st = [] then
           (st, fprintf no_message_line (LOG ERROR ''script aborted (no error message)'' u))
         else
           report_lines (Split (errmsg st) ''\<newline>'') st
             (LOG ERROR (''script aborted: '' @ errmsg st) u));
          st2 = (if error_code st1 = kNoError cs
                 then st1\<lparr>error_code := kScriptExecutionFailure cs\<rparr> else st1);
          u2 = fprintf (log_error_line (error_code st2)) u1;
          u3 =
            (if cause_code st2 \<noteq> kNoCause cs then
               (let u' = fprintf (log_cause_line (cause_code st2)) u2
                in if cause_code st2 = kPatchApplicationFailure cs then
                     fprintf retry_update_line
                       (LOG INFO ''Patch application failed, retry update.'' u')
                   else if cause_code st2 = kEioFailure cs then
                     fprintf retry_update_line
                       (LOG INFO ''Update failed due to EIO, retry update.'' u')
                   else u')
             else u2)
      in (st2, u3))"

subsection \<open>\<^verbatim>\<open>Updater::RunUpdate\<close>\<close>

text \<open>
  The script engine is not part of the updater: \<^verbatim>\<open>ParseString\<close> and
  \<^verbatim>\<open>Evaluate\<close> are parameters. \<open>parse s\<close> is the returned error, the root and the
  error count. \<open>evaluate root st u\<close> is the returned status, the state as the engine
  leaves it, and the updater as the engine leaves it: the engine holds the updater as the
  state's cookie, may print through it while the script runs, and writes \<^verbatim>\<open>result_\<close>.

  The third component of the result is the function's local \<^verbatim>\<open>State\<close> as it is when
  the function returns, \<open>None\<close> on the path that returns before constructing it.
\<close>

definition RunUpdate ::
  "codes \<Rightarrow> (string \<Rightarrow> int \<times> 'ast \<times> int) \<Rightarrow>
   ('ast \<Rightarrow> State \<Rightarrow> Updater \<Rightarrow> bool \<times> State \<times> Updater) \<Rightarrow>
   Updater \<Rightarrow> bool \<times> Updater \<times> State option" where
  "RunUpdate cs parse evaluate u =
     (case parse (updater_script u) of
        (error, root, error_count) \<Rightarrow>
          if error \<noteq> 0 \<or> error_count > 0 then
            (False, LOG ERROR (show_int error_count @ '' parse errors'') u, None)
          else
            (let state = (new_State cs (updater_script u))\<lparr>is_retry := updater_is_retry u\<rparr>
             in case evaluate root state u of
                  (status, state1, u1) \<Rightarrow>
                    if status then
                      (let u2 = fprintf (succeeded_line (updater_result u1)) u1;
                           u3 = (if updater_result u1 = [] \<and> cause_code state1 \<noteq> kNoCause cs
                                 then fprintf (log_cause_line (cause_code state1)) u2
                                 else u2)
                       in (True, u3, Some state1))
                    else
                      (case ParseAndReportErrorCode cs state1 u1 of
                         (state2, u2) \<Rightarrow> (False, u2, Some state2))))"

text \<open>What a call has written to the pipe: the entries after those of \<open>u\<close>.\<close>

definition written :: "Updater \<Rightarrow> Updater \<Rightarrow> string list" where
  "written u u' = drop (length (cmd_pipe u)) (cmd_pipe u')"


text \<open>
  The error code a line of the abort message gives to the loop of
  \<^verbatim>\<open>ParseAndReportErrorCode\<close>: the value \<^verbatim>\<open>sscanf\<close> stores, when the line is not
  empty, begins with \<^verbatim>\<open>E\<close> and the call returns 1; \<open>None\<close> when the loop leaves the
  error code as it is.
\<close>

definition line_code :: "string \<Rightarrow> int option" where
  "line_code line = (if line \<noteq> [] \<and> hd line = CHR ''E'' then sscanf_E_d line else None)"

text \<open>
  Modelled from the spec: "the trimmed result string (leading and trailing whitespace
  removed)". The updater has no such function; this one follows the spec's words and is
  only compared with what the updater writes.
\<close>

definition Trim_spec :: "string \<Rightarrow> string" where
  "Trim_spec s = rev (dropWhile isspace (rev (dropWhile isspace s)))"

subsection \<open>Concrete inputs\<close>

text \<open>
  A failed state with a given abort message, error code and cause code; an updater that
  has written nothing yet; a parser that accepts every script, one that reports two parse
  errors; and an engine that returns a given status, result and cause code.
\<close>

definition state0 :: "string \<Rightarrow> int \<Rightarrow> int \<Rightarrow> State" where
  "state0 msg e c =
     \<lparr>script = [], errmsg = msg, error_code = e, cause_code = c, is_retry = False\<rparr>"

definition updater0 :: Updater where
  "updater0 =
     \<lparr>cmd_pipe = [], diag_log = [], updater_script = [], updater_result = [],
      updater_is_retry = False\<rparr>"

definition parse_ok :: "string \<Rightarrow> int \<times> unit \<times> int" where
  "parse_ok s = (0, (), 0)"

definition parse_2_errors :: "string \<Rightarrow> int \<times> unit \<times> int" where
  "parse_2_errors s = (0, (), 2)"

definition evaluate_to ::
  "bool \<Rightarrow> string \<Rightarrow> int \<Rightarrow> unit \<Rightarrow> State \<Rightarrow> Updater \<Rightarrow> bool \<times> State \<times> Updater" where
  "evaluate_to status res cause root st u =
     (status, st\<lparr>cause_code := cause\<rparr>, u\<lparr>updater_result := res\<rparr>)"

section \<open>Properties\<close>

subsection \<open>Splitting, scanning and the loops\<close>

lemma c_str_no_NUL: "CHR 0x00 \<notin> set s \<Longrightarrow> c_str s = s"
  by (induction s) (auto simp: c_str_def)

lemma Split_Nil: "Split [] d = [[]]"
  by (simp add: Split.simps)

lemma Split_Cons_delimiter: "c \<in> set d \<Longrightarrow> Split (c # s) d = [] # Split s d"
  by (subst Split.simps) simp

lemma Split_Cons_other:
  "c \<notin> set d \<Longrightarrow>
   Split (c # s) d = (case Split s d of [] \<Rightarrow> [[c]] | t # ts \<Rightarrow> (c # t) # ts)"
  by (subst Split.simps, subst (2) Split.simps) (simp add: Let_def)

lemma Split_not_Nil: "Split s d \<noteq> []"
  by (subst Split.simps) (simp add: Let_def)

lemma Split_join: "concat (map ((#) n) (Split s [n])) = n # s"
proof (induction s)
  case Nil
  show ?case by (simp add: Split_Nil)
next
  case (Cons c s)
  show ?case
  proof (cases "c = n")
    case True
    then show ?thesis using Cons.IH by (simp add: Split_Cons_delimiter)
  next
    case False
    obtain t ts where ts: "Split s [n] = t # ts"
      using Split_not_Nil [of s "[n]"] by (cases "Split s [n]") auto
    with False Cons.IH show ?thesis by (simp add: Split_Cons_other)
  qed
qed

lemma Split_no_delimiter: "t \<in> set (Split s d) \<Longrightarrow> c \<in> set t \<Longrightarrow> c \<notin> set d"
proof (induction s arbitrary: t)
  case Nil
  then show ?case by (simp add: Split_Nil)
next
  case (Cons a s)
  obtain t0 ts where ts: "Split s d = t0 # ts"
    using Split_not_Nil [of s d] by (cases "Split s d") auto
  show ?case
  proof (cases "a \<in> set d")
    case True
    with Cons show ?thesis by (auto simp: Split_Cons_delimiter)
  next
    case False
    with Cons.prems ts have "t = a # t0 \<or> t \<in> set ts"
      by (auto simp: Split_Cons_other)
    then show ?thesis
    proof
      assume "t = a # t0"
      with Cons.prems(2) have "c = a \<or> c \<in> set t0" by auto
      then show ?thesis using False Cons.IH [of t0] ts by auto
    next
      assume "t \<in> set ts"
      then show ?thesis using Cons.IH [of t] Cons.prems(2) ts by auto
    qed
  qed
qed


lemma cmd_pipe_fprintf [simp]: "cmd_pipe (fprintf text u) = cmd_pipe u @ [text]"
  by (simp add: fprintf_def)

lemma diag_log_fprintf [simp]: "diag_log (fprintf text u) = diag_log u"
  by (simp add: fprintf_def)

lemma cmd_pipe_LOG [simp]: "cmd_pipe (LOG sev text u) = cmd_pipe u"
  by (simp add: LOG_def)

lemma diag_log_LOG [simp]: "diag_log (LOG sev text u) = diag_log u @ [(sev, text)]"
  by (simp add: LOG_def)

lemma written_append [simp]: "cmd_pipe u' = cmd_pipe u @ ws \<Longrightarrow> written u u' = ws"
  by (simp add: written_def)

lemma cmd_pipe_UiPrint_loop:
  "cmd_pipe (UiPrint_loop lines u) =
     cmd_pipe u @ map ui_print_line (filter (\<lambda>line. line \<noteq> []) lines)"
  by (induction lines arbitrary: u) simp_all

lemma diag_log_UiPrint_loop: "diag_log (UiPrint_loop lines u) = diag_log u"
  by (induction lines arbitrary: u) simp_all

lemma report_line_state:
  "fst (report_line line st u) =
     (case line_code line of Some v \<Rightarrow> st\<lparr>error_code := v\<rparr> | None \<Rightarrow> st)"
  by (simp add: report_line_def line_code_def split: option.split)

lemma report_line_pipe:
  "cmd_pipe (snd (report_line line st u)) = cmd_pipe u @ [ui_print_line line]"
  by (simp add: report_line_def split: option.split)

lemma report_lines_pipe:
  "cmd_pipe (snd (report_lines lines st u)) = cmd_pipe u @ map ui_print_line lines"
proof (induction lines arbitrary: st u)
  case Nil
  show ?case by simp
next
  case (Cons line lines)
  obtain st1 u1 where step: "report_line line st u = (st1, u1)"
    by (cases "report_line line st u")
  have "cmd_pipe u1 = cmd_pipe u @ [ui_print_line line]"
    using report_line_pipe [of line st u] step by simp
  with Cons.IH [of st1 u1] step show ?case by simp
qed

lemma report_lines_append:
  "report_lines (xs @ ys) st u =
     (case report_lines xs st u of (st1, u1) \<Rightarrow> report_lines ys st1 u1)"
  by (induction xs arbitrary: st u) (simp_all split: prod.split)

lemma report_lines_cause:
  "cause_code (fst (report_lines lines st u)) = cause_code st"
proof (induction lines arbitrary: st u)
  case Nil
  show ?case by simp
next
  case (Cons line lines)
  obtain st1 u1 where step: "report_line line st u = (st1, u1)"
    by (cases "report_line line st u")
  have "cause_code st1 = cause_code st"
    using report_line_state [of line st u] step by (simp split: option.splits)
  with Cons.IH [of st1 u1] step show ?case by simp
qed

lemma report_lines_no_code:
  "\<forall>line\<in>set lines. line_code line = None \<Longrightarrow> fst (report_lines lines st u) = st"
proof (induction lines arbitrary: st u)
  case Nil
  show ?case by simp
next
  case (Cons line lines)
  obtain st1 u1 where step: "report_line line st u = (st1, u1)"
    by (cases "report_line line st u")
  have "st1 = st"
    using report_line_state [of line st u] step Cons.prems by simp
  with Cons.IH [of st1 u1] Cons.prems step show ?case by simp
qed

lemma report_lines_last_code:
  assumes "line_code line = Some v" and "\<forall>l\<in>set after. line_code l = None"
  shows "error_code (fst (report_lines (before @ [line] @ after) st u)) = v"
proof -
  obtain st1 u1 where b: "report_lines before st u = (st1, u1)"
    by (cases "report_lines before st u")
  obtain st2 u2 where l: "report_line line st1 u1 = (st2, u2)"
    by (cases "report_line line st1 u1")
  have "error_code st2 = v"
    using report_line_state [of line st1 u1] l assms(1) by simp
  moreover have "fst (report_lines after st2 u2) = st2"
    using assms(2) by (rule report_lines_no_code)
  ultimately show ?thesis
    using b l by (simp add: report_lines_append)
qed


lemma to_int32_id: "- (2 ^ 31) \<le> v \<Longrightarrow> v < 2 ^ 31 \<Longrightarrow> to_int32 v = v"
  by (simp add: to_int32_def)

lemma foldl_decimal_nonneg:
  "\<forall>c\<in>set ds. isdigit c \<Longrightarrow> 0 \<le> a \<Longrightarrow>
   0 \<le> foldl (\<lambda>acc c. 10 * acc + digit_value c) a ds"
proof (induction ds arbitrary: a)
  case Nil
  then show ?case by simp
next
  case (Cons d ds)
  have "0 \<le> digit_value d"
    using Cons.prems(1) by (simp add: isdigit_def digit_value_def)
  with Cons.prems have "0 \<le> 10 * a + digit_value d" by simp
  with Cons.IH [of "10 * a + digit_value d"] Cons.prems(1) show ?case by simp
qed

lemma decimal_nonneg: "\<forall>c\<in>set ds. isdigit c \<Longrightarrow> 0 \<le> decimal ds"
  unfolding decimal_def by (rule foldl_decimal_nonneg) simp_all

lemma isdigit_not_isspace: "isdigit c \<Longrightarrow> \<not> isspace c"
  by (auto simp: isdigit_def isspace_def)

lemma isdigit_not_sign: "isdigit c \<Longrightarrow> c \<noteq> CHR ''-'' \<and> c \<noteq> CHR ''+''"
  by (auto simp: isdigit_def)

lemma isdigit_not_NUL: "isdigit c \<Longrightarrow> c \<noteq> CHR 0x00"
  by (auto simp: isdigit_def)

lemma scan_d_digits:
  assumes "ds \<noteq> []" and "\<forall>c\<in>set ds. isdigit c" and "\<not> isdigit x"
  shows "scan_d (ds @ x # text) = Some (to_int32 (saturate64 (decimal ds)))"
proof -
  obtain d ds' where ds: "ds = d # ds'"
    using assms(1) by (cases ds) auto
  have d: "isdigit d" using assms(2) ds by simp
  have skip: "dropWhile isspace (ds @ x # text) = ds @ x # text"
    using isdigit_not_isspace [OF d] ds by simp
  have run: "takeWhile isdigit (ds @ x # text) = ds"
    using assms(2,3) by (simp add: takeWhile_append2)
  show ?thesis
    using isdigit_not_sign [OF d] assms(1)
    by (simp add: scan_d_def skip Let_def run) (simp add: ds)
qed

lemma c_str_digits: "\<forall>c\<in>set ds. isdigit c \<Longrightarrow> c_str (ds @ s) = ds @ c_str s"
  by (induction ds) (auto simp: c_str_def dest: isdigit_not_NUL)

lemma sscanf_marker:
  assumes "ds \<noteq> []" and "\<forall>c\<in>set ds. isdigit c"
  shows "sscanf_E_d (CHR ''E'' # ds @ CHR '':'' # text) =
           Some (to_int32 (saturate64 (decimal ds)))"
proof -
  have "c_str (CHR ''E'' # ds @ CHR '':'' # text) = CHR ''E'' # ds @ CHR '':'' # c_str text"
    using c_str_digits [OF assms(2), of "CHR '':'' # text"] by (simp add: c_str_def)
  moreover have "\<not> isdigit CHR '':''" by (simp add: isdigit_def)
  ultimately show ?thesis
    using scan_d_digits [OF assms] by (simp add: sscanf_E_d_def)
qed

lemma line_code_marker:
  assumes "ds \<noteq> []" and "\<forall>c\<in>set ds. isdigit c" and "decimal ds < 2 ^ 31"
  shows "line_code (CHR ''E'' # ds @ CHR '':'' # text) = Some (decimal ds)"
  using sscanf_marker [OF assms(1,2)] decimal_nonneg [OF assms(2)] assms(3)
  by (simp add: line_code_def to_int32_id saturate64_def)

lemma report_shape:
  assumes "ParseAndReportErrorCode cs st u = (st', u')"
  shows "cmd_pipe u' =
           cmd_pipe u
           @ (if errmsg st = [] then [no_message_line]
              else map ui_print_line (Split (errmsg st) ''\<newline>''))
           @ [log_error_line (error_code st')]
           @ (if cause_code st' \<noteq> kNoCause cs then [log_cause_line (cause_code st')] else [])
           @ (if cause_code st' \<noteq> kNoCause cs \<and>
                 (cause_code st' = kPatchApplicationFailure cs \<or> cause_code st' = kEioFailure cs)
              then [retry_update_line] else [])"
proof (cases "errmsg st = []")
  case True
  with assms show ?thesis
    by (auto simp: ParseAndReportErrorCode_def Let_def)
next
  case False
  obtain st1 u1 where loop:
    "report_lines (Split (errmsg st) ''\<newline>'') st
       (LOG ERROR (''script aborted: '' @ errmsg st) u) = (st1, u1)"
    by (cases "report_lines (Split (errmsg st) ''\<newline>'') st
       (LOG ERROR (''script aborted: '' @ errmsg st) u)")
  have "cmd_pipe u1 = cmd_pipe u @ map ui_print_line (Split (errmsg st) ''\<newline>'')"
    using report_lines_pipe [of "Split (errmsg st) ''\<newline>''" st
        "LOG ERROR (''script aborted: '' @ errmsg st) u"] loop by simp
  with assms False loop show ?thesis
    by (auto simp: ParseAndReportErrorCode_def Let_def)
qed

lemma report_cause:
  assumes "ParseAndReportErrorCode cs st u = (st', u')"
  shows "cause_code st' = cause_code st"
proof (cases "errmsg st = []")
  case True
  with assms show ?thesis
    by (auto simp: ParseAndReportErrorCode_def Let_def)
next
  case False
  obtain st1 u1 where loop:
    "report_lines (Split (errmsg st) ''\<newline>'') st
       (LOG ERROR (''script aborted: '' @ errmsg st) u) = (st1, u1)"
    by (cases "report_lines (Split (errmsg st) ''\<newline>'') st
       (LOG ERROR (''script aborted: '' @ errmsg st) u)")
  have "cause_code st1 = cause_code st"
    using report_lines_cause [of "Split (errmsg st) ''\<newline>''" st
        "LOG ERROR (''script aborted: '' @ errmsg st) u"] loop by simp
  with assms False loop show ?thesis
    by (auto simp: ParseAndReportErrorCode_def Let_def)
qed

lemma report_code:
  assumes "ParseAndReportErrorCode cs st u = (st', u')"
  shows "error_code st' =
     (let c = (if errmsg st = [] then error_code st
               else error_code (fst (report_lines (Split (errmsg st) ''\<newline>'') st
                      (LOG ERROR (''script aborted: '' @ errmsg st) u))))
      in if c = kNoError cs then kScriptExecutionFailure cs else c)"
  using assms
  by (auto simp: ParseAndReportErrorCode_def Let_def split: prod.splits if_splits)


lemma Split_no_delimiter_id: "\<forall>c\<in>set s. c \<notin> set d \<Longrightarrow> Split s d = [s]"
  by (induction s) (simp_all add: Split_Nil Split_Cons_other)






lemma sscanf_saturates: "sscanf_E_d ''E9223372036854775808: x'' = Some (- 1)"
  by (simp add: sscanf_E_d_def c_str_def scan_d_def isspace_def isdigit_def decimal_def
      digit_value_def to_int32_def saturate64_def Let_def)

lemmas scan_simps =
  sscanf_E_d_def c_str_def scan_d_def isspace_def isdigit_def decimal_def digit_value_def
  to_int32_def saturate64_def line_code_def

lemmas line_simps =
  ui_print_line_def log_error_line_def log_cause_line_def retry_update_line_def
  succeeded_line_def no_message_line_def show_int_def show_nat.simps digit_char_def c_str_def

lemmas Split_simps = Split_Nil Split_Cons_delimiter Split_Cons_other

lemmas report_simps =
  ParseAndReportErrorCode_def report_line_def fprintf_def LOG_def Let_def sample_codes_def
  state0_def updater0_def

lemma Split_chars: "t \<in> set (Split s d) \<Longrightarrow> set t \<subseteq> set s"
proof (induction s arbitrary: t)
  case Nil
  then show ?case by (simp add: Split_Nil)
next
  case (Cons a s)
  obtain t0 ts where ts: "Split s d = t0 # ts"
    using Split_not_Nil [of s d] by (cases "Split s d") auto
  show ?case
  proof (cases "a \<in> set d")
    case True
    with Cons show ?thesis by (auto simp: Split_Cons_delimiter)
  next
    case False
    with Cons.prems ts have "t = a # t0 \<or> t \<in> set ts"
      by (auto simp: Split_Cons_other)
    then show ?thesis
      using Cons.IH [of t0] Cons.IH [of t] ts by auto
  qed
qed

subsection \<open>The error code of the abort message\<close>

text \<open>
  Claim C1 as it is stated fails where the digits do not fit the \<^verbatim>\<open>int\<close> that holds
  the error code: the only line of the message matches \<^verbatim>\<open>E<digits>:\<close> with the digits
  4294967326, and the code on the \<^verbatim>\<open>log error:\<close> line is 30.
\<close>

theorem marker_overflow_counterexample:
  "ParseAndReportErrorCode sample_codes (state0 ''E4294967326: wrong device.'' 0 0) updater0 =
     (state0 ''E4294967326: wrong device.'' 30 0,
      updater0\<lparr>cmd_pipe := [''ui_print E4294967326: wrong device.\<newline>'',
                              ''log error: 30\<newline>''],
               diag_log := [(ERROR, ''script aborted: E4294967326: wrong device.'')]\<rparr>)
   \<and> decimal ''4294967326'' = 4294967326"
  by (simp add: report_simps Split_simps scan_simps line_simps)

text \<open>
  Claim C1, amended. Let the abort message have a line \<^verbatim>\<open>E<digits>:\<close> (the letter E, one
  or more decimal digits, a colon, any text) whose number fits a 32-bit \<^verbatim>\<open>int\<close>, and
  let no line after it give the loop an error code. Then the error code of the report,
  written on the \<^verbatim>\<open>log error:\<close> line that follows the \<^verbatim>\<open>ui_print\<close> lines, is that
  number, whatever the lines before it are: earlier matches are overwritten. A number equal
  to the "no error" code is reported as the generic script execution failure.
\<close>

theorem last_marker_wins:
  assumes run: "ParseAndReportErrorCode cs st u = (st', u')"
    and lines: "Split (errmsg st) ''\<newline>'' =
                  before @ [CHR ''E'' # ds @ CHR '':'' # text] @ after"
    and ds: "ds \<noteq> []" "\<forall>c\<in>set ds. isdigit c"
    and fits: "decimal ds < 2 ^ 31"
    and after: "\<forall>line\<in>set after. line_code line = None"
  shows "error_code st' =
           (if decimal ds = kNoError cs then kScriptExecutionFailure cs else decimal ds)
       \<and> take (Suc (length (Split (errmsg st) ''\<newline>''))) (written u u') =
           map ui_print_line (Split (errmsg st) ''\<newline>'') @ [log_error_line (error_code st')]"
proof -
  have msg: "errmsg st \<noteq> []"
  proof
    assume "errmsg st = []"
    with lines have "before @ [CHR ''E'' # ds @ CHR '':'' # text] @ after = [[]]"
      by (simp add: Split_Nil)
    then have "CHR ''E'' # ds @ CHR '':'' # text \<in> set [[]]"
      by (metis in_set_conv_decomp append_Cons append_Nil)
    then show False by simp
  qed
  have code: "line_code (CHR ''E'' # ds @ CHR '':'' # text) = Some (decimal ds)"
    using ds fits by (rule line_code_marker)
  have "error_code (fst (report_lines (Split (errmsg st) ''\<newline>'') st
          (LOG ERROR (''script aborted: '' @ errmsg st) u))) = decimal ds"
    unfolding lines using code after by (rule report_lines_last_code)
  with report_code [OF run] msg have
    "error_code st' =
       (if decimal ds = kNoError cs then kScriptExecutionFailure cs else decimal ds)"
    by (simp add: Let_def)
  moreover have "written u u' =
      (map ui_print_line (Split (errmsg st) ''\<newline>'') @ [log_error_line (error_code st')])
      @ ((if cause_code st' \<noteq> kNoCause cs then [log_cause_line (cause_code st')] else [])
         @ (if cause_code st' \<noteq> kNoCause cs \<and>
               (cause_code st' = kPatchApplicationFailure cs \<or> cause_code st' = kEioFailure cs)
            then [retry_update_line] else []))"
    using report_shape [OF run] msg by (intro written_append) simp
  then have "take (Suc (length (Split (errmsg st) ''\<newline>''))) (written u u') =
      map ui_print_line (Split (errmsg st) ''\<newline>'') @ [log_error_line (error_code st')]"
    by simp
  ultimately show ?thesis by simp
qed

theorem last_marker_wins_witness:
  "error_code (fst (ParseAndReportErrorCode sample_codes
      (state0 ''E7: first\<newline>E30: wrong device.\<newline>Please check.'' 0 0) updater0)) = 30
   \<and> written updater0 (snd (ParseAndReportErrorCode sample_codes
      (state0 ''E7: first\<newline>E30: wrong device.\<newline>Please check.'' 0 0) updater0)) =
     [''ui_print E7: first\<newline>'', ''ui_print E30: wrong device.\<newline>'',
      ''ui_print Please check.\<newline>'', ''log error: 30\<newline>'']"
proof -
  let ?st = "state0 ''E7: first\<newline>E30: wrong device.\<newline>Please check.'' 0 0"
  obtain st' u' where run: "ParseAndReportErrorCode sample_codes ?st updater0 = (st', u')"
    by (cases "ParseAndReportErrorCode sample_codes ?st updater0")
  have lines: "Split (errmsg ?st) ''\<newline>'' =
      [''E7: first''] @ [CHR ''E'' # ''30'' @ CHR '':'' # '' wrong device.''] @ [''Please check.'']"
    by (simp add: state0_def Split_simps)
  have ds: "''30'' \<noteq> []" "\<forall>c\<in>set ''30''. isdigit c"
    by (simp_all add: isdigit_def)
  have fits: "decimal ''30'' < 2 ^ 31"
    by (simp add: decimal_def digit_value_def)
  have after: "\<forall>line\<in>set [''Please check.'']. line_code line = None"
    by (simp add: line_code_def)
  have shown: "cause_code st' = 0"
    using report_cause [OF run] by (simp add: state0_def)
  have w: "written updater0 u' = take 4 (written updater0 u')"
    using report_shape [OF run] shown
    by (simp add: written_def updater0_def state0_def sample_codes_def Split_simps)
  note inst = last_marker_wins [OF run lines ds fits after]
  have e: "error_code st' = 30"
    using inst by (simp add: sample_codes_def decimal_def digit_value_def)
  have "take 4 (written updater0 u') =
      map ui_print_line (Split (errmsg ?st) ''\<newline>'') @ [log_error_line 30]"
    using inst unfolding e by (simp add: state0_def Split_simps eval_nat_numeral)
  then have "take 4 (written updater0 u') =
        [''ui_print E7: first\<newline>'', ''ui_print E30: wrong device.\<newline>'',
         ''ui_print Please check.\<newline>'', ''log error: 30\<newline>'']"
    by (simp add: state0_def Split_simps line_simps)
  with w e show ?thesis unfolding run by simp
qed

subsection \<open>The retry instruction\<close>

text \<open>
  Claim C2. For every failed evaluation, the report writes a \<^verbatim>\<open>retry_update\<close> line if
  and only if the final cause code is the patch application failure or the EIO failure
  (two causes that differ from "no cause", as members of one enumeration do); for every
  other cause code, "no cause" included, it writes none. The report leaves the cause code
  as the evaluation set it and never writes the line twice.
\<close>

theorem retry_update_iff:
  assumes "ParseAndReportErrorCode cs st u = (st', u')"
    and "kPatchApplicationFailure cs \<noteq> kNoCause cs"
    and "kEioFailure cs \<noteq> kNoCause cs"
  shows "(retry_update_line \<in> set (written u u') \<longleftrightarrow>
            cause_code st' = kPatchApplicationFailure cs \<or> cause_code st' = kEioFailure cs)
         \<and> cause_code st' = cause_code st
         \<and> count_list (written u u') retry_update_line \<le> 1"
proof -
  let ?ui = "if errmsg st = [] then [no_message_line]
            else map ui_print_line (Split (errmsg st) ''\<newline>'')"
  let ?cause = "if cause_code st' \<noteq> kNoCause cs then [log_cause_line (cause_code st')] else []"
  let ?retry = "if cause_code st' \<noteq> kNoCause cs \<and>
                 (cause_code st' = kPatchApplicationFailure cs \<or> cause_code st' = kEioFailure cs)
              then [retry_update_line] else []"
  have shape: "written u u' = ?ui @ [log_error_line (error_code st')] @ ?cause @ ?retry"
    using report_shape [OF assms(1)] by (intro written_append) simp
  have ui: "retry_update_line \<notin> set ?ui"
    by (auto simp: no_message_line_def ui_print_line_def retry_update_line_def)
  have err: "retry_update_line \<noteq> log_error_line (error_code st')"
    by (simp add: retry_update_line_def log_error_line_def)
  have cause: "retry_update_line \<notin> set ?cause"
    by (simp add: retry_update_line_def log_cause_line_def)
  have "retry_update_line \<in> set (written u u') \<longleftrightarrow>
          cause_code st' = kPatchApplicationFailure cs \<or> cause_code st' = kEioFailure cs"
    unfolding shape using ui err cause assms(2,3) by auto
  moreover have "count_list (written u u') retry_update_line \<le> 1"
    unfolding shape using ui err cause by (auto simp: count_list_0_iff)
  ultimately show ?thesis
    using report_cause [OF assms(1)] by simp
qed

theorem retry_update_iff_witness:
  "retry_update_line \<in> set (written updater0
      (snd (ParseAndReportErrorCode sample_codes (state0 ''patch failed'' 0 115) updater0)))
   \<and> retry_update_line \<in> set (written updater0
      (snd (ParseAndReportErrorCode sample_codes (state0 ''read failed'' 0 117) updater0)))
   \<and> retry_update_line \<notin> set (written updater0
      (snd (ParseAndReportErrorCode sample_codes (state0 ''wrong device'' 0 104) updater0)))
   \<and> retry_update_line \<notin> set (written updater0
      (snd (ParseAndReportErrorCode sample_codes (state0 ''wrong device'' 0 0) updater0)))"
proof -
  have c: "kPatchApplicationFailure sample_codes \<noteq> kNoCause sample_codes"
    "kEioFailure sample_codes \<noteq> kNoCause sample_codes"
    by (simp_all add: sample_codes_def)
  have r: "retry_update_line \<in> set (written updater0 (snd (ParseAndReportErrorCode sample_codes (state0 msg 0 k) updater0)))
      \<longleftrightarrow> k = 115 \<or> k = 117" for msg k
  proof -
    obtain st' u' where run:
      "ParseAndReportErrorCode sample_codes (state0 msg 0 k) updater0 = (st', u')"
      by (cases "ParseAndReportErrorCode sample_codes (state0 msg 0 k) updater0")
    show ?thesis
      using retry_update_iff [OF run c] unfolding run
      by (simp add: state0_def sample_codes_def)
  qed
  show ?thesis by (simp add: r)
qed

subsection \<open>A marker without its colon\<close>

text \<open>
  Claim C3 on the code: the abort message \<^verbatim>\<open>E30 wrong device\<close> begins with E and has
  no colon after the digits, so it does not match \<^verbatim>\<open>E<digits>:\<close>. The report overwrites
  the error code with 30 all the same and logs no warning: the only log entry is the
  one for the aborted script.
\<close>

theorem marker_without_colon:
  "ParseAndReportErrorCode sample_codes (state0 ''E30 wrong device'' 0 0) updater0 =
     (state0 ''E30 wrong device'' 30 0,
      updater0\<lparr>cmd_pipe := [''ui_print E30 wrong device\<newline>'', ''log error: 30\<newline>''],
               diag_log := [(ERROR, ''script aborted: E30 wrong device'')]\<rparr>)"
  by (simp add: report_simps Split_simps scan_simps line_simps)

subsection \<open>The empty abort message\<close>

text \<open>
  Claim C4 as it is stated fails for a state whose message is empty and whose error code
  the engine has set: with the error code 42 the \<^verbatim>\<open>log error:\<close> line reports 42, not
  the generic script execution failure.
\<close>

theorem empty_message_counterexample:
  "ParseAndReportErrorCode sample_codes (state0 [] 42 0) updater0 =
     (state0 [] 42 0,
      updater0\<lparr>cmd_pipe := [''ui_print script aborted (no error message)\<newline>'',
                              ''log error: 42\<newline>''],
               diag_log := [(ERROR, ''script aborted (no error message)'')]\<rparr>)
   \<and> log_error_line (kScriptExecutionFailure sample_codes) = ''log error: 25\<newline>''"
  by (simp add: report_simps line_simps)

text \<open>
  Claim C4, amended. A failed run is never reported with the "no error" code (the generic
  script execution failure being another member of the enumeration). When the abort
  message is empty, the report writes exactly one \<^verbatim>\<open>ui_print\<close> line, the generic
  \<^verbatim>\<open>ui_print script aborted (no error message)\<close>, followed by the \<^verbatim>\<open>log error:\<close>
  line; the code on that line is the generic script execution failure when the state
  holds "no error", and the code the state holds otherwise.
\<close>

theorem empty_message_report:
  assumes "ParseAndReportErrorCode cs st u = (st', u')"
    and "kScriptExecutionFailure cs \<noteq> kNoError cs"
  shows "error_code st' \<noteq> kNoError cs
     \<and> (errmsg st = [] \<longrightarrow>
          filter (\<lambda>w. take 9 w = ''ui_print '') (written u u') = [no_message_line]
          \<and> take 2 (written u u') = [no_message_line, log_error_line (error_code st')]
          \<and> error_code st' =
              (if error_code st = kNoError cs then kScriptExecutionFailure cs else error_code st))"
proof (intro conjI impI)
  show "error_code st' \<noteq> kNoError cs"
    using report_code [OF assms(1)] assms(2) by (simp add: Let_def split: if_splits)
next
  assume empty: "errmsg st = []"
  have shape: "written u u' =
           [no_message_line, log_error_line (error_code st')]
           @ (if cause_code st' \<noteq> kNoCause cs then [log_cause_line (cause_code st')] else [])
           @ (if cause_code st' \<noteq> kNoCause cs \<and>
                 (cause_code st' = kPatchApplicationFailure cs \<or> cause_code st' = kEioFailure cs)
              then [retry_update_line] else [])"
    using report_shape [OF assms(1)] empty by (intro written_append) simp
  show "filter (\<lambda>w. take 9 w = ''ui_print '') (written u u') = [no_message_line]"
    unfolding shape
    by (simp add: no_message_line_def log_error_line_def log_cause_line_def retry_update_line_def)
  show "take 2 (written u u') = [no_message_line, log_error_line (error_code st')]"
    unfolding shape by simp
  show "error_code st' =
      (if error_code st = kNoError cs then kScriptExecutionFailure cs else error_code st)"
    using report_code [OF assms(1)] empty by (simp add: Let_def)
qed

theorem empty_message_report_witness:
  "written updater0 (snd (ParseAndReportErrorCode sample_codes (state0 [] 0 0) updater0)) =
     [''ui_print script aborted (no error message)\<newline>'', ''log error: 25\<newline>'']
   \<and> error_code (fst (ParseAndReportErrorCode sample_codes (state0 [] 0 0) updater0)) = 25"
proof -
  obtain st' u' where run:
    "ParseAndReportErrorCode sample_codes (state0 [] 0 0) updater0 = (st', u')"
    by (cases "ParseAndReportErrorCode sample_codes (state0 [] 0 0) updater0")
  have c: "kScriptExecutionFailure sample_codes \<noteq> kNoError sample_codes"
    by (simp add: sample_codes_def)
  have e: "errmsg (state0 [] 0 0) = []"
    by (simp add: state0_def)
  have w: "written updater0 u' =
     [''ui_print script aborted (no error message)\<newline>'', ''log error: 25\<newline>'']"
    using run by (auto simp: report_simps line_simps written_def)
  from empty_message_report [OF run c] e have "error_code st' = 25"
    by (simp add: state0_def sample_codes_def)
  with w show ?thesis unfolding run by simp
qed

subsection \<open>Parse failures\<close>

text \<open>
  Claim C5. When the parse returns a nonzero error or a positive error count,
  \<^verbatim>\<open>RunUpdate\<close> returns false, has constructed no \<^verbatim>\<open>State\<close>, has written nothing
  to the command pipe and has only logged the count; its result is the same for every
  engine, so the evaluation is not invoked. A \<^verbatim>\<open>State\<close> is constructed, and the
  result can depend on the engine, only when the parse returns no error and no positive
  error count.
\<close>

theorem parse_failure_stops:
  assumes "parse (updater_script u) = (error, root, error_count)"
  shows "(error \<noteq> 0 \<or> 0 < error_count \<longrightarrow>
            RunUpdate cs parse evaluate u =
              (False, LOG ERROR (show_int error_count @ '' parse errors'') u, None)
            \<and> cmd_pipe (fst (snd (RunUpdate cs parse evaluate u))) = cmd_pipe u
            \<and> RunUpdate cs parse evaluate' u = RunUpdate cs parse evaluate u)
       \<and> (snd (snd (RunUpdate cs parse evaluate u)) \<noteq> None \<longleftrightarrow>
            error = 0 \<and> error_count \<le> 0)"
  using assms by (auto simp: RunUpdate_def Let_def split: prod.splits)

theorem parse_failure_stops_witness:
  "RunUpdate sample_codes parse_2_errors (evaluate_to True ''done'' 0) updater0 =
     (False, updater0\<lparr>diag_log := [(ERROR, ''2 parse errors'')]\<rparr>, None)
   \<and> snd (snd (RunUpdate sample_codes parse_ok (evaluate_to True ''done'' 0) updater0)) \<noteq> None"
proof -
  have p: "parse_2_errors (updater_script updater0) = (0, (), 2)"
    by (simp add: parse_2_errors_def)
  have q: "parse_ok (updater_script updater0) = (0, (), 0)"
    by (simp add: parse_ok_def)
  show ?thesis
    using
      parse_failure_stops [where parse = parse_2_errors and u = updater0 and cs = sample_codes
        and evaluate = "evaluate_to True ''done'' 0", OF p]
      parse_failure_stops [where parse = parse_ok and u = updater0 and cs = sample_codes
        and evaluate = "evaluate_to True ''done'' 0", OF q]
    by (simp add: LOG_def updater0_def line_simps)
qed

subsection \<open>The cause code of a successful run\<close>




subsection \<open>Printing to the UI\<close>

text \<open>
  Claim C7. \<^verbatim>\<open>UiPrint\<close> splits the message at the newlines (the segments hold no
  newline, and joined by newlines they give the message back) and writes exactly the
  segments that are not empty, in order, each as one \<^verbatim>\<open>ui_print <segment>\<close> line (the
  segment as \<^verbatim>\<open>%s\<close> prints it, which for a message without NUL bytes is the segment
  itself); an empty segment, the one after a final newline included, writes nothing. For
  the message \<^verbatim>\<open>"a\nb\n"\<close> the lines written are \<^verbatim>\<open>ui_print a\<close> and
  \<^verbatim>\<open>ui_print b\<close>.
\<close>

theorem UiPrint_nonempty_segments:
  "cmd_pipe (UiPrint message u) =
     cmd_pipe u @ map ui_print_line (filter (\<lambda>segment. segment \<noteq> []) (Split message ''\<newline>''))
   \<and> concat (map ((#) CHR ''\<newline>'') (Split message ''\<newline>'')) = CHR ''\<newline>'' # message
   \<and> (\<forall>segment\<in>set (Split message ''\<newline>'').
         CHR ''\<newline>'' \<notin> set segment \<and>
         (CHR 0x00 \<notin> set message \<longrightarrow>
            ui_print_line segment = ''ui_print '' @ segment @ ''\<newline>''))
   \<and> written u (UiPrint ''a\<newline>b\<newline>'' u) = [''ui_print a\<newline>'', ''ui_print b\<newline>'']"
proof (intro conjI ballI impI)
  show "cmd_pipe (UiPrint message u) =
     cmd_pipe u @ map ui_print_line (filter (\<lambda>segment. segment \<noteq> []) (Split message ''\<newline>''))"
    by (simp add: UiPrint_def cmd_pipe_UiPrint_loop)
  show "concat (map ((#) CHR ''\<newline>'') (Split message ''\<newline>'')) = CHR ''\<newline>'' # message"
    by (rule Split_join)
  show "written u (UiPrint ''a\<newline>b\<newline>'' u) = [''ui_print a\<newline>'', ''ui_print b\<newline>'']"
    by (rule written_append)
      (simp add: UiPrint_def cmd_pipe_UiPrint_loop Split_simps ui_print_line_def c_str_def)
next
  fix segment
  assume seg: "segment \<in> set (Split message ''\<newline>'')"
  show "CHR ''\<newline>'' \<notin> set segment"
    using Split_no_delimiter [OF seg, of "CHR ''\<newline>''"] by auto
  assume "CHR 0x00 \<notin> set message"
  with Split_chars [OF seg] have "CHR 0x00 \<notin> set segment" by auto
  then show "ui_print_line segment = ''ui_print '' @ segment @ ''\<newline>''"
    by (simp add: ui_print_line_def c_str_no_NUL)
qed

theorem UiPrint_nonempty_segments_witness:
  "cmd_pipe (UiPrint ''line1\<newline>\<newline>line2\<newline>'' updater0) =
     [''ui_print line1\<newline>'', ''ui_print line2\<newline>'']
   \<and> Split ''line1\<newline>\<newline>line2\<newline>'' ''\<newline>'' = [''line1'', [], ''line2'', []]"
  using UiPrint_nonempty_segments [of "''line1\<newline>\<newline>line2\<newline>''" updater0]
  by (simp add: Split_simps updater0_def)

subsection \<open>Empty lines of the abort message\<close>

text \<open>
  Claim C8 on the code: for the abort message \<^verbatim>\<open>"wrong device\n"\<close> the split gives the
  segment \<^verbatim>\<open>wrong device\<close> and an empty segment, and the report forwards both: it writes
  a \<^verbatim>\<open>ui_print\<close> line with no text for the empty one, where \<^verbatim>\<open>UiPrint\<close> skips
  empty segments.
\<close>

theorem empty_line_forwarded:
  "ParseAndReportErrorCode sample_codes (state0 ''wrong device\<newline>'' 0 0) updater0 =
     (state0 ''wrong device\<newline>'' 25 0,
      updater0\<lparr>cmd_pipe := [''ui_print wrong device\<newline>'', ''ui_print \<newline>'',
                              ''log error: 25\<newline>''],
               diag_log := [(ERROR, ''script aborted: wrong device\<newline>'')]\<rparr>)"
  by (simp add: report_simps Split_simps scan_simps line_simps)

subsection \<open>The success line\<close>

text \<open>
  Claim C9 as it is stated fails for a result with white space around it: for the result
  \<^verbatim>\<open>" done "\<close> the success line holds \<^verbatim>\<open>[ done ]\<close>, and no line with the trimmed
  result \<^verbatim>\<open>[done]\<close> is written.
\<close>

theorem success_line_counterexample:
  "cmd_pipe (fst (snd (RunUpdate sample_codes parse_ok (evaluate_to True '' done '' 0) updater0))) =
     [''ui_print script succeeded: result was [ done ]\<newline>'']
   \<and> Trim_spec '' done '' = ''done''
   \<and> ''ui_print script succeeded: result was ['' @ Trim_spec '' done '' @ '']\<newline>''
       \<notin> set (cmd_pipe (fst (snd (RunUpdate sample_codes parse_ok
                (evaluate_to True '' done '' 0) updater0))))"
  by (simp add: RunUpdate_def parse_ok_def evaluate_to_def Let_def fprintf_def updater0_def
      new_State_def sample_codes_def line_simps Trim_spec_def isspace_def)

text \<open>
  Claim C9, amended. When the script parses and the evaluation succeeds, \<^verbatim>\<open>RunUpdate\<close>
  returns true and the first thing it writes to the command pipe is the success line
  holding the result string as the evaluation left it (as \<^verbatim>\<open>%s\<close> prints it), with no
  white space removed.
\<close>

theorem success_line_verbatim:
  assumes "parse (updater_script u) = (error, root, error_count)"
    and "\<not> (error \<noteq> 0 \<or> 0 < error_count)"
    and "evaluate root ((new_State cs (updater_script u))\<lparr>is_retry := updater_is_retry u\<rparr>) u =
           (True, st1, u1)"
  shows "fst (RunUpdate cs parse evaluate u) = True
       \<and> take 1 (written u1 (fst (snd (RunUpdate cs parse evaluate u)))) =
           [''ui_print script succeeded: result was ['' @ c_str (updater_result u1) @ '']\<newline>'']"
  using assms by (auto simp: RunUpdate_def Let_def written_def succeeded_line_def)

theorem success_line_verbatim_witness:
  "fst (RunUpdate sample_codes parse_ok (evaluate_to True '' done '' 0) updater0) = True
   \<and> take 1 (written updater0 (fst (snd (RunUpdate sample_codes parse_ok
        (evaluate_to True '' done '' 0) updater0)))) =
      [''ui_print script succeeded: result was [ done ]\<newline>'']"
proof -
  have q: "parse_ok (updater_script updater0) = (0, (), 0)"
    by (simp add: parse_ok_def)
  have ok: "\<not> ((0::int) \<noteq> 0 \<or> (0::int) < 0)"
    by simp
  have ev: "evaluate_to True '' done '' 0 ()
      ((new_State sample_codes (updater_script updater0))\<lparr>is_retry := updater_is_retry updater0\<rparr>)
      updater0 =
      (True,
       (new_State sample_codes (updater_script updater0))\<lparr>is_retry := updater_is_retry updater0,
          cause_code := 0\<rparr>,
       updater0\<lparr>updater_result := '' done ''\<rparr>)"
    by (simp add: evaluate_to_def)
  show ?thesis
    using
      success_line_verbatim [where parse = parse_ok and u = updater0 and cs = sample_codes
        and evaluate = "evaluate_to True '' done '' 0", OF q ok ev]
    by (simp add: written_def updater0_def c_str_def)
qed

subsection \<open>The order of the report\<close>

text \<open>
  Claim C10. What a failure report writes to the command pipe is, in this order: the
  \<^verbatim>\<open>ui_print\<close> lines of the abort message (or the single generic line when the
  message is empty), each beginning with \<^verbatim>\<open>ui_print\<close>; one \<^verbatim>\<open>log error:\<close> line; a
  \<^verbatim>\<open>log cause:\<close> line when there is a cause code; and after it a \<^verbatim>\<open>retry_update\<close>
  line when that cause is one of the two that ask for a retry. Exactly one line written
  begins with \<^verbatim>\<open>log error:\<close>.
\<close>

theorem report_order:
  assumes "ParseAndReportErrorCode cs st u = (st', u')"
  shows "written u u' =
           (if errmsg st = [] then [no_message_line]
            else map ui_print_line (Split (errmsg st) ''\<newline>''))
           @ [log_error_line (error_code st')]
           @ (if cause_code st \<noteq> kNoCause cs then [log_cause_line (cause_code st)] else [])
           @ (if cause_code st \<noteq> kNoCause cs \<and>
                 (cause_code st = kPatchApplicationFailure cs \<or> cause_code st = kEioFailure cs)
              then [retry_update_line] else [])
         \<and> (\<forall>w\<in>set (if errmsg st = [] then [no_message_line]
                       else map ui_print_line (Split (errmsg st) ''\<newline>'')).
               take 9 w = ''ui_print '')
         \<and> length (filter (\<lambda>w. take 11 w = ''log error: '') (written u u')) = 1"
proof -
  let ?ui = "if errmsg st = [] then [no_message_line]
            else map ui_print_line (Split (errmsg st) ''\<newline>'')"
  have shape: "written u u' =
           ?ui
           @ [log_error_line (error_code st')]
           @ (if cause_code st \<noteq> kNoCause cs then [log_cause_line (cause_code st)] else [])
           @ (if cause_code st \<noteq> kNoCause cs \<and>
                 (cause_code st = kPatchApplicationFailure cs \<or> cause_code st = kEioFailure cs)
              then [retry_update_line] else [])"
    using report_shape [OF assms] report_cause [OF assms] by (intro written_append) simp
  have prefix: "\<forall>w\<in>set ?ui. take 9 w = ''ui_print ''"
    by (auto simp: no_message_line_def ui_print_line_def)
  have ui: "filter (\<lambda>w. take 11 w = ''log error: '') ?ui = []"
    by (auto simp: filter_empty_conv no_message_line_def ui_print_line_def)
  have "length (filter (\<lambda>w. take 11 w = ''log error: '') (written u u')) = 1"
    unfolding shape filter_append ui
    by (simp add: log_error_line_def log_cause_line_def retry_update_line_def)
  with shape prefix show ?thesis by simp
qed

theorem report_order_witness:
  "written updater0
     (snd (ParseAndReportErrorCode sample_codes
            (state0 ''E30: wrong device.\<newline>Please check.'' 0 115) updater0)) =
     [''ui_print E30: wrong device.\<newline>'', ''ui_print Please check.\<newline>'',
      ''log error: 30\<newline>'', ''log cause: 115\<newline>'', ''retry_update\<newline>'']"
proof -
  obtain st' u' where run:
    "ParseAndReportErrorCode sample_codes
       (state0 ''E30: wrong device.\<newline>Please check.'' 0 115) updater0 = (st', u')"
    by (cases "ParseAndReportErrorCode sample_codes
       (state0 ''E30: wrong device.\<newline>Please check.'' 0 115) updater0")
  have "error_code st' = 30"
    using run by (auto simp: report_simps Split_simps scan_simps)
  with report_order [OF run] show ?thesis
    unfolding run by (simp add: state0_def sample_codes_def Split_simps line_simps)
qed

end
